theory Spec2Isabelle
  imports Main "HOL-Library.Word"
begin

section \<open>Faults of the C program\<close>

text \<open>
  A read or write through a null pointer, and an array access outside the allocated block,
  are undefined behaviour in C, as are a write past the end of a local buffer and an
  access through an address that holds no object of the type. The model makes each of
  them a value: \<open>OutOfBounds i n\<close> is an access to index \<open>i\<close> of a block of \<open>n\<close>
  elements, \<open>InvalidPointer a\<close> an access through address \<open>a\<close>.
\<close>

datatype fault = NullDereference | OutOfBounds nat nat | InvalidPointer nat | BufferOverflow

section \<open>The thread pool: abbey.c\<close>

subsection \<open>Data\<close>

text \<open>
  A function pointer is compared by identity only. The two task bodies of poseta.c that are
  handed to the pool are named; every other function is \<open>FnUser k\<close>.
\<close>

datatype funcptr = FnNull | FnPosetaTask | FnTupleTask | FnUser nat

definition TS_READY :: int where "TS_READY = 0"
definition TS_CREATING :: int where "TS_CREATING = 1"
definition TS_OPEN :: int where "TS_OPEN = 2"
definition TS_BUSY :: int where "TS_BUSY = 3"

definition MAX_TASK_DESCRIPTION_LEN :: nat where "MAX_TASK_DESCRIPTION_LEN = 64"

text \<open>
  \<open>struct Task\<close>: the fields \<open>state\<close>, \<open>func\<close>, \<open>context\<close> and \<open>description\<close>.
  A \<open>void *\<close> is an address, \<open>0\<close> for \<open>NULL\<close>. The field \<open>description\<close> is the
  array \<open>char description[MAX_TASK_DESCRIPTION_LEN]\<close> byte by byte, not the C string
  read from it.
\<close>

record Task =
  task_state :: int
  task_func :: funcptr
  task_context :: nat
  task_description :: string

text \<open>
  The file's static variables. The arrays \<open>threadId\<close> and \<open>task\<close> are lists, whose
  length is the size of the allocated block; \<open>nofMonks\<close> and \<open>nofTasks\<close> are the
  counters the code keeps beside them (C \<open>int\<close>s that never go below 0).
  \<open>taskBuffer\<close> points to \<open>taskBufferContent\<close>. The mutex \<open>abbeyMutex\<close> and the
  condition variable \<open>abbeyCond\<close> are not part of the state: what runs under the mutex
  is one step, and where the code runs without it the model says what the other threads
  may have done to the pool in between. What the code prints with \<open>printf\<close> is left out.
\<close>

record abbey =
  threadId :: "nat list"
  task :: "Task list"
  nofMonks :: nat
  nofTasks :: nat
  taskBufferContent :: nat
  dedicatedTaskBuffer :: nat
  amountOfMonksBusy :: nat

text \<open>The initialisers of the static variables (lines 68 to 75).\<close>

definition abbey_static :: abbey where
  "abbey_static =
     \<lparr>threadId = [], task = [], nofMonks = 0, nofTasks = 0,
      taskBufferContent = 4, dedicatedTaskBuffer = 2, amountOfMonksBusy = 0\<rparr>"

text \<open>A task slot as \<open>calloc\<close> leaves it: every byte zero.\<close>

definition zero_Task :: Task where
  "zero_Task =
     \<lparr>task_state = 0, task_func = FnNull, task_context = 0,
      task_description = replicate 64 (CHR 0x00)\<rparr>"

text \<open>The counters agree with the blocks they describe.\<close>

definition abbey_ok :: "abbey \<Rightarrow> bool" where
  "abbey_ok s = (length (task s) = nofTasks s \<and> length (threadId s) = nofMonks s)"

subsection \<open>Operations\<close>

text \<open>
  \<open>set_task_state\<close> (line 99) writes the state field of one slot under the pool's mutex
  and returns 0.
\<close>

definition set_task_state :: "nat \<Rightarrow> int \<Rightarrow> abbey \<Rightarrow> int \<times> abbey" where
  "set_task_state taskId st s =
     (0, s\<lparr>task := (task s)[taskId := (task s ! taskId)\<lparr>task_state := st\<rparr>]\<rparr>)"

text \<open>
  \<open>realloc\<close> either fails (\<open>None\<close>) or returns a block whose old cells are kept and whose
  new cells hold whatever the memory held: \<open>Some g\<close>, with \<open>g i\<close> the content of new cell
  \<open>i\<close>. \<open>increaseTaskBuffer\<close> (line 166) does not write to the new cells.
\<close>

definition increaseTaskBuffer :: "nat \<Rightarrow> (nat \<Rightarrow> Task) option \<Rightarrow> abbey \<Rightarrow> abbey" where
  "increaseTaskBuffer amount r s =
     (case r of
        None \<Rightarrow> s
      | Some g \<Rightarrow>
          s\<lparr>task := task s @ map g [nofTasks s ..< nofTasks s + amount],
            nofTasks := nofTasks s + amount,
            dedicatedTaskBuffer := 2\<rparr>)"

text \<open>
  The \<open>for\<close> loop of \<open>find_task_and_change_state\<close> (line 127): the first index from
  \<open>dedicatedTaskBuffer\<close> up to \<open>nofTasks\<close> whose slot is in the state looked for.
\<close>

definition find_slot :: "int \<Rightarrow> abbey \<Rightarrow> nat option" where
  "find_slot st s =
     List.find (\<lambda>i. task_state (task s ! i) = st) [dedicatedTaskBuffer s ..< nofTasks s]"

text \<open>
  \<open>find_task_and_change_state\<close> (line 123). The first pass of the \<open>while\<close> loop runs under
  \<open>abbeyMutex\<close>. A pass that finds no slot and does not wait sets the reserve to 0, runs
  \<open>increaseTaskBuffer\<close>, and then unlocks the mutex (line 154) before the loop goes round:
  every later pass runs without the mutex. Each growth therefore comes with two things
  from outside: the result of its \<open>realloc\<close>, and what the other threads did to the pool
  between the unlock and the next pass. A pass itself is followed as one step.

  A call ends in one of three ways: it returns the index of the slot it changed
  (\<open>Found\<close>); it sits in \<open>pthread_cond_wait\<close> on the pool's condition variable (\<open>Waits\<close>);
  or it is still growing the buffer when the list of growths given to the model is used
  up (\<open>Unfinished\<close>).
\<close>

type_synonym growth = "(nat \<Rightarrow> Task) option \<times> (abbey \<Rightarrow> abbey)"

datatype find_result = Found nat abbey | Waits abbey | Unfinished abbey

fun find_task_and_change_state ::
  "int \<Rightarrow> int \<Rightarrow> bool \<Rightarrow> growth list \<Rightarrow> abbey \<Rightarrow> find_result" where
  "find_task_and_change_state st newState mayFail gs s =
     (case find_slot st s of
        Some i \<Rightarrow> Found i (s\<lparr>task := (task s)[i := (task s ! i)\<lparr>task_state := newState\<rparr>]\<rparr>)
      | None \<Rightarrow>
          if mayFail \<or> dedicatedTaskBuffer s = 0 then Waits s
          else (case gs of
                  [] \<Rightarrow> Unfinished (s\<lparr>dedicatedTaskBuffer := 0\<rparr>)
                | g # gs' \<Rightarrow>
                    find_task_and_change_state st newState mayFail gs'
                      (snd g (increaseTaskBuffer (taskBufferContent s) (fst g)
                                (s\<lparr>dedicatedTaskBuffer := 0\<rparr>)))))"

declare find_task_and_change_state.simps [simp del]

text \<open>
  \<open>strncpy(dest, src, n)\<close> writes exactly \<open>n\<close> bytes at the start of \<open>dest\<close>: the characters
  of the C string \<open>src\<close> (up to its first zero byte) as far as \<open>n\<close> allows, then zero bytes
  up to \<open>n\<close>. The bytes of \<open>dest\<close> from \<open>n\<close> on are not written.
\<close>

definition strncpy :: "string \<Rightarrow> string \<Rightarrow> nat \<Rightarrow> string" where
  "strncpy dest src n =
     take n (takeWhile (\<lambda>c. c \<noteq> CHR 0x00) src @ replicate n (CHR 0x00)) @ drop n dest"

text \<open>
  \<open>dispatch_described_task\<close> (line 307): claim a slot, fill it, open it, \<open>return 0\<close>.
  The description is copied with \<open>strncpy\<close> and \<open>MAX_TASK_DESCRIPTION_LEN - 1\<close>, so the
  last byte of the slot's array stays what it was.
\<close>

datatype dispatch_result =
  Dispatched int abbey | DispatchWaits abbey | DispatchUnfinished abbey

definition dispatch_described_task ::
  "funcptr \<Rightarrow> nat \<Rightarrow> string \<Rightarrow> growth list \<Rightarrow> abbey \<Rightarrow> dispatch_result" where
  "dispatch_described_task func ctx taskDesc gs s =
     (case find_task_and_change_state TS_READY TS_CREATING False gs s of
        Found taskId s1 \<Rightarrow>
          let s2 = s1\<lparr>task := (task s1)[taskId := (task s1 ! taskId)
                     \<lparr>task_func := func, task_context := ctx,
                      task_description :=
                        strncpy (task_description (task s1 ! taskId)) taskDesc
                          (MAX_TASK_DESCRIPTION_LEN - 1)\<rparr>]\<rparr>
          in Dispatched 0 (snd (set_task_state taskId TS_OPEN s2))
      | Waits s1 \<Rightarrow> DispatchWaits s1
      | Unfinished s1 \<Rightarrow> DispatchUnfinished s1)"

text \<open>
  \<open>addMonk\<close> (line 187). \<open>r\<close> is the result of \<open>realloc\<close> (the content of the one new
  cell when it succeeds), \<open>created\<close> the handle \<open>pthread_create\<close> writes through its first
  argument (\<open>None\<close> when it fails). The counter is incremented before it is used as the
  index of the cell handed to \<open>pthread_create\<close> and to \<open>ptreaty_add_thread\<close>. When
  \<open>pthread_create\<close> fails the code has only formed the address of that cell and returns;
  when it succeeds the handle has been written there.
\<close>

definition addMonk :: "nat option \<Rightarrow> nat option \<Rightarrow> abbey \<Rightarrow> fault + abbey" where
  "addMonk r created s =
     (case r of
        None \<Rightarrow> Inr s
      | Some junk \<Rightarrow>
          let s1 = s\<lparr>threadId := threadId s @ [junk], nofMonks := nofMonks s + 1\<rparr>
          in (case created of
                None \<Rightarrow> Inr s1
              | Some h \<Rightarrow>
                  if nofMonks s1 < length (threadId s1)
                  then Inr (s1\<lparr>threadId := (threadId s1)[nofMonks s1 := h],
                               dedicatedTaskBuffer := 2\<rparr>)
                  else Inl (OutOfBounds (nofMonks s1) (length (threadId s1)))))"

text \<open>
  \<open>initialize_abbey\<close> (line 270): both blocks come from \<open>calloc\<close>; thread \<open>i\<close> is created
  into cell \<open>i\<close>, for \<open>i\<close> below \<open>nofMonks\<close>; the result is \<open>-1\<close> at the first thread that
  cannot be created and \<open>0\<close> otherwise.
\<close>

fun create_monks :: "(nat \<Rightarrow> nat option) \<Rightarrow> nat list \<Rightarrow> nat list \<Rightarrow> int \<times> nat list" where
  "create_monks created [] ids = (0, ids)"
| "create_monks created (i # is) ids =
     (case created i of
        None \<Rightarrow> (- 1, ids)
      | Some h \<Rightarrow> create_monks created is (ids[i := h]))"

definition initialize_abbey :: "nat \<Rightarrow> nat \<Rightarrow> (nat \<Rightarrow> nat option) \<Rightarrow> int \<times> abbey" where
  "initialize_abbey monkCount taskBuffer created =
     (let s = abbey_static\<lparr>nofTasks := taskBuffer, nofMonks := monkCount,
                task := replicate taskBuffer zero_Task,
                threadId := replicate monkCount 0\<rparr>;
          res = create_monks created [0 ..< monkCount] (threadId s)
      in (fst res, s\<lparr>threadId := snd res\<rparr>))"

text \<open>What a call of the slot search or of dispatch ended in.\<close>

fun claimed_slot :: "find_result \<Rightarrow> nat option" where
  "claimed_slot (Found i s) = Some i"
| "claimed_slot (Waits s) = None"
| "claimed_slot (Unfinished s) = None"


fun find_state :: "find_result \<Rightarrow> abbey" where
  "find_state (Found i s) = s"
| "find_state (Waits s) = s"
| "find_state (Unfinished s) = s"


fun dispatch_waits :: "dispatch_result \<Rightarrow> bool" where
  "dispatch_waits (Dispatched r s) = False"
| "dispatch_waits (DispatchWaits s) = True"
| "dispatch_waits (DispatchUnfinished s) = False"

fun abbey_of :: "dispatch_result \<Rightarrow> abbey" where
  "abbey_of (Dispatched r s) = s"
| "abbey_of (DispatchWaits s) = s"
| "abbey_of (DispatchUnfinished s) = s"

text \<open>
  What the other threads may do between two passes. \<open>alone\<close>: nothing. A worker that has
  finished a task while every worker was busy sets the reserve to 0 (line 246) and is
  inside \<open>addMonk\<close>: \<open>monk_in_addMonk\<close>. A growth or an \<open>addMonk\<close> that ends well sets the
  reserve to 2 (lines 176 and 209): \<open>reserve_restored\<close>.
\<close>

definition alone :: "abbey \<Rightarrow> abbey" where
  "alone s = s"

definition monk_in_addMonk :: "abbey \<Rightarrow> abbey" where
  "monk_in_addMonk s = s\<lparr>dedicatedTaskBuffer := 0\<rparr>"

definition reserve_restored :: "abbey \<Rightarrow> abbey" where
  "reserve_restored s = s\<lparr>dedicatedTaskBuffer := 2\<rparr>"




subsection \<open>Concrete pools\<close>

text \<open>
  Every \<open>pthread_create\<close> succeeds, with handle \<open>100 + i\<close> for thread \<open>i\<close>. Memory that
  \<open>realloc\<close> hands out uninitialised holds either zero bytes or the bytes of a slot that
  reads as \<open>TS_OPEN\<close> and has no zero byte in its description.
\<close>

definition all_created :: "nat \<Rightarrow> nat option" where
  "all_created i = Some (100 + i)"


definition junk_open :: "nat \<Rightarrow> Task" where
  "junk_open i =
     \<lparr>task_state = 2, task_func = FnUser 99, task_context = 7,
      task_description = replicate 64 (CHR ''x'')\<rparr>"

text \<open>\<open>initialize_abbey(2, 4)\<close> and \<open>initialize_abbey(1, 3)\<close>.\<close>

definition pool_2_4 :: abbey where
  "pool_2_4 = snd (initialize_abbey 2 4 all_created)"

definition pool_1_3 :: abbey where
  "pool_1_3 = snd (initialize_abbey 1 3 all_created)"

text \<open>
  Three dispatches on \<open>pool_1_3\<close> with no worker finishing in between; the \<open>realloc\<close> of
  the second one fails.
\<close>

definition pool_1_3_a :: abbey where
  "pool_1_3_a = abbey_of (dispatch_described_task (FnUser 1) 0 ''first'' [] pool_1_3)"

definition pool_1_3_b :: abbey where
  "pool_1_3_b =
     abbey_of (dispatch_described_task (FnUser 2) 0 ''second'' [(None, alone)] pool_1_3_a)"

definition pool_1_3_c :: abbey where
  "pool_1_3_c = abbey_of (dispatch_described_task (FnUser 3) 0 ''third'' [] pool_1_3_b)"

text \<open>
  The same three slots, all OPEN, after an \<open>addMonk\<close> that ended well has set the reserve
  back to 2.
\<close>

definition pool_1_3_d :: abbey where
  "pool_1_3_d = reserve_restored pool_1_3_c"

text \<open>
  Memory that reads as a READY slot whose description has no zero byte, and a
  description of 70 characters.
\<close>

definition junk_dirty :: "nat \<Rightarrow> Task" where
  "junk_dirty i =
     \<lparr>task_state = 0, task_func = FnUser 99, task_context = 7,
      task_description = replicate 64 (CHR ''x'')\<rparr>"

definition long_description :: string where
  "long_description = replicate 70 (CHR ''d'')"

section \<open>Logging: log.c\<close>

text \<open>
  \<open>tprintf\<close> (line 87) prints a line unless its verbosity is above
  \<open>logconf->levelOfVerbosity\<close>. A printed line is kept as verbosity, function and message;
  the thread name, the colours and the copy to syslog are left out, and with them the
  other fields of \<open>struct LogConf\<close>. The calls of \<open>tprintf\<close> in ptreaty.c are left out
  too: the routines there never read the log.
\<close>

definition LOG_ALERT :: "8 word" where "LOG_ALERT = 1"
definition LOG_WARNING :: "8 word" where "LOG_WARNING = 4"
definition LOG_DEBUG :: "8 word" where "LOG_DEBUG = 7"
definition LOG_VERBOSE :: "8 word" where "LOG_VERBOSE = 8"
definition LOG_VV :: "8 word" where "LOG_VV = 9"

record LogConf =
  levelOfVerbosity :: "8 word"
  printed :: "(8 word \<times> string \<times> string) list"

definition initLog :: "8 word \<Rightarrow> LogConf" where
  "initLog verbosity = \<lparr>levelOfVerbosity = verbosity, printed = []\<rparr>"

definition tprintf :: "8 word \<Rightarrow> string \<Rightarrow> string \<Rightarrow> LogConf \<Rightarrow> LogConf" where
  "tprintf verbosity function msg lg =
     (if verbosity > levelOfVerbosity lg then lg
      else lg\<lparr>printed := printed lg @ [(verbosity, function, msg)]\<rparr>)"

section \<open>Synchronisation channels: ptreaty.c\<close>

subsection \<open>Data\<close>

text \<open>
  \<open>struct SyncThreads\<close>. A mutex is \<open>None\<close> when free and \<open>Some t\<close> when thread \<open>t\<close>
  holds it; a condition variable is the list of the threads blocked on it. The
  \<open>uint8_t\<close> counter \<open>predicate\<close> wraps at 256.
\<close>

record SyncThreads =
  request :: "nat option"
  baton :: "nat option"
  signal :: "nat list"
  ack :: "nat list"
  predicate :: "8 word"
  flags :: "8 word"

text \<open>
  A call that can block either returns, with the state it leaves, or blocks, with the
  state at the point where it is suspended.
\<close>

datatype 'a outcome = Returns 'a | Blocks 'a

fun blocks :: "'a outcome \<Rightarrow> bool" where
  "blocks (Returns x) = False"
| "blocks (Blocks x) = True"

fun outcome_state :: "'a outcome \<Rightarrow> 'a" where
  "outcome_state (Returns x) = x"
| "outcome_state (Blocks x) = x"

subsection \<open>Operations\<close>

text \<open>\<open>ptreaty_init\<close> (line 100): fresh mutexes and condition variables, counters 0.\<close>

definition ptreaty_init :: SyncThreads where
  "ptreaty_init =
     \<lparr>request = None, baton = None, signal = [], ack = [], predicate = 0, flags = 0\<rparr>"

text \<open>
  \<open>ptreaty_init_baton\<close> (line 161) locks the baton and clears the counter;
  \<open>ptreaty_hoist_flag\<close> (line 212) locks the request mutex and \<open>ptreaty_lower_flag\<close>
  (line 222) unlocks it.
\<close>

definition ptreaty_init_baton :: "nat \<Rightarrow> SyncThreads \<Rightarrow> SyncThreads outcome" where
  "ptreaty_init_baton t st =
     (case baton st of
        None \<Rightarrow> Returns (st\<lparr>baton := Some t, predicate := 0\<rparr>)
      | Some u \<Rightarrow> Blocks st)"

definition ptreaty_hoist_flag :: "nat \<Rightarrow> SyncThreads \<Rightarrow> SyncThreads outcome" where
  "ptreaty_hoist_flag t st =
     (case request st of
        None \<Rightarrow> Returns (st\<lparr>request := Some t\<rparr>)
      | Some u \<Rightarrow> Blocks st)"

definition ptreaty_lower_flag :: "SyncThreads \<Rightarrow> SyncThreads" where
  "ptreaty_lower_flag st = st\<lparr>request := None\<rparr>"

text \<open>
  \<open>ptreaty_flag_hoisted\<close> (line 230) is \<open>pthread_mutex_trylock(st->request) == EBUSY\<close>:
  when the request mutex is free the answer is no, and the caller now holds the mutex.
\<close>

definition ptreaty_flag_hoisted :: "nat \<Rightarrow> SyncThreads \<Rightarrow> bool \<times> SyncThreads" where
  "ptreaty_flag_hoisted t st =
     (case request st of
        None \<Rightarrow> (False, st\<lparr>request := Some t\<rparr>)
      | Some u \<Rightarrow> (True, st))"

text \<open>
  \<open>ptreaty_wait\<close> (line 199): \<open>while (st->predicate == 0) pthread_cond_wait(...)\<close>, then
  \<open>st->predicate--\<close>. With the counter at 0 the caller is suspended in
  \<open>pthread_cond_wait\<close>, which releases the baton and puts the caller on the signal's
  list; only another thread's increment of the counter lets the loop end.
\<close>

definition ptreaty_wait :: "nat \<Rightarrow> SyncThreads \<Rightarrow> SyncThreads outcome" where
  "ptreaty_wait t st =
     (if predicate st = 0
      then Blocks (st\<lparr>baton := None, signal := signal st @ [t]\<rparr>)
      else Returns (st\<lparr>predicate := predicate st - 1\<rparr>))"

text \<open>
  \<open>ptreaty_make_m_run\<close> (line 245). With the flag hoisted: lock the baton, increment the
  counter, \<open>pthread_cond_signal\<close> (one waiter leaves the list), unlock the baton. With the
  flag not hoisted the only statement is \<open>pthread_mutex_unlock(st->request)\<close>, which gives
  back the mutex that the test itself took.
\<close>

definition ptreaty_make_m_run :: "nat \<Rightarrow> SyncThreads \<Rightarrow> SyncThreads outcome" where
  "ptreaty_make_m_run t st =
     (let hoisted = ptreaty_flag_hoisted t st; st1 = snd hoisted
      in if fst hoisted
         then (case baton st1 of
                 Some u \<Rightarrow> Blocks st1
               | None \<Rightarrow>
                   Returns (st1\<lparr>predicate := predicate st1 + 1, signal := tl (signal st1)\<rparr>))
         else Returns (st1\<lparr>request := None\<rparr>))"

text \<open>The scenario "signal, then wait": thread \<open>s\<close> signals, then thread \<open>w\<close> waits.\<close>

definition signal_then_wait :: "nat \<Rightarrow> nat \<Rightarrow> SyncThreads \<Rightarrow> SyncThreads outcome" where
  "signal_then_wait s w st =
     (case ptreaty_make_m_run s st of
        Returns st1 \<Rightarrow> ptreaty_wait w st1
      | Blocks st1 \<Rightarrow> Blocks st1)"

text \<open>A channel whose flag thread 1 has hoisted.\<close>

definition hoisted_channel :: SyncThreads where
  "hoisted_channel = outcome_state (ptreaty_hoist_flag 1 ptreaty_init)"

section \<open>Ordered tasks: poseta.c\<close>

subsection \<open>Data\<close>

text \<open>
  \<open>struct PosetaTask\<close>; the field \<open>treaty\<close> is a pointer to one of the two precedence
  routines, \<open>st\<close> the address of the channel. \<open>struct Condition\<close> without its \<open>next\<close>
  field: the linked list \<open>posconf->cond\<close> is a list, head first, and the entry a lookup
  returns is the element at that place of the list.
\<close>

datatype treaty = Treaty_should_be_first | Treaty_should_be_later

record PosetaTask =
  pt_func :: funcptr
  pt_context :: nat
  pt_treaty :: treaty
  pt_st :: nat
  pt_order :: "8 word"

record Condition =
  cond_name :: funcptr
  cond_index :: "8 word"
  cond_exec :: funcptr
  cond_context :: nat

text \<open>
  The global state the routines of poseta.c work on: the registry, the heap cells that
  \<open>malloc\<close> gave to tasks and channels (\<open>heap_top\<close> is the next free address, address 0 is
  \<open>NULL\<close>), the log and the thread pool.
\<close>

record world =
  posconf_cond :: "Condition list"
  posetaTask_heap :: "nat \<Rightarrow> PosetaTask option"
  syncThreads_heap :: "nat \<Rightarrow> SyncThreads option"
  heap_top :: nat
  logconf :: LogConf
  pool :: abbey

subsection \<open>The registry\<close>

text \<open>
  The \<open>do ... while\<close> loop of \<open>getCondition\<close> (line 180): the first entry, from the head,
  whose \<open>name\<close> is the pointer looked for.
\<close>

fun lookup_condition :: "funcptr \<Rightarrow> Condition list \<Rightarrow> Condition option" where
  "lookup_condition name [] = None"
| "lookup_condition name (lc # rest) =
     (if cond_name lc = name then Some lc else lookup_condition name rest)"

text \<open>\<open>getCondition\<close> (line 173) warns when the list is empty.\<close>

definition getCondition :: "funcptr \<Rightarrow> world \<Rightarrow> Condition option \<times> world" where
  "getCondition name w =
     (case posconf_cond w of
        [] \<Rightarrow>
          (None, w\<lparr>logconf :=
             tprintf LOG_WARNING ''getCondition'' ''No conditions at all...'' (logconf w)\<rparr>)
      | lc # rest \<Rightarrow> (lookup_condition name (lc # rest), w))"

text \<open>\<open>initPoseta\<close> (line 142) and \<open>addCondition\<close> (line 151).\<close>

definition initPoseta :: "world \<Rightarrow> world" where
  "initPoseta w = w\<lparr>posconf_cond := []\<rparr>"

definition addCondition :: "Condition \<Rightarrow> world \<Rightarrow> world" where
  "addCondition cond w =
     (case posconf_cond w of
        [] \<Rightarrow>
          w\<lparr>logconf := tprintf LOG_VERBOSE ''addCondition'' ''Add first condition'' (logconf w),
            posconf_cond := [cond]\<rparr>
      | lc # rest \<Rightarrow>
          (case getCondition (cond_name cond) w of
             (Some found, w1) \<Rightarrow>
               w1\<lparr>logconf :=
                 tprintf LOG_ALERT ''addCondition'' ''Condition exists already'' (logconf w1)\<rparr>
           | (None, w1) \<Rightarrow>
               w1\<lparr>logconf := tprintf LOG_VERBOSE ''addCondition'' ''Success'' (logconf w1),
                  posconf_cond := cond # posconf_cond w1\<rparr>))"

text \<open>
  \<open>poseta_func1_if_func0\<close> (line 244). The five blocks it allocates get consecutive
  addresses: the first task, the channel, the first condition, the second task, the
  second condition (the mutexes and condition variables that \<open>ptreaty_init\<close> allocates
  are part of the channel's record). The \<open>context\<close> field of a new task is not written
  here (it is 0 in the model); \<open>dispatch_poseta_task\<close> writes it before the task runs.
  Both tasks and the channel are set up whether or not \<open>addCondition\<close> accepts the
  conditions that point to them.
\<close>

definition poseta_func1_if_func0 :: "funcptr \<Rightarrow> funcptr \<Rightarrow> world \<Rightarrow> world" where
  "poseta_func1_if_func0 func0 func1 w =
     (let pt0 = heap_top w; st = heap_top w + 1; pt1 = heap_top w + 3;
          w1 = w\<lparr>heap_top := heap_top w + 5,
                 syncThreads_heap := (syncThreads_heap w)(st := Some ptreaty_init),
                 posetaTask_heap := (posetaTask_heap w)
                   (pt0 := Some \<lparr>pt_func = func0, pt_context = 0,
                                 pt_treaty = Treaty_should_be_first, pt_st = st, pt_order = 0\<rparr>,
                    pt1 := Some \<lparr>pt_func = func1, pt_context = 0,
                                 pt_treaty = Treaty_should_be_later, pt_st = st, pt_order = 1\<rparr>)\<rparr>;
          w2 = addCondition
                 \<lparr>cond_name = func0, cond_index = 0, cond_exec = FnPosetaTask,
                  cond_context = pt0\<rparr> w1
      in addCondition
           \<lparr>cond_name = func1, cond_index = 1, cond_exec = FnPosetaTask,
            cond_context = pt1\<rparr> w2)"

text \<open>
  \<open>dispatch_poseta_task\<close> (line 291). On a lookup miss the code formats the warning,
  prints it and jumps to \<open>fallback\<close>, where the arguments \<open>lc->exec\<close> and \<open>lc->context\<close>
  are read through \<open>lc\<close>, which is \<open>NULL\<close>. The result is the fault or the result of the
  dispatch, with the state reached. The warning is formatted by \<open>sprintf\<close> into
  \<open>char text[128]\<close>: its 33 fixed characters and the terminator leave room for a
  description of 94 characters.
\<close>

definition dispatch_poseta_task ::
  "funcptr \<Rightarrow> nat \<Rightarrow> string \<Rightarrow> growth list \<Rightarrow> world
     \<Rightarrow> (fault + dispatch_result) \<times> world" where
  "dispatch_poseta_task func ctx taskDesc rs w =
     (let w1 = w\<lparr>logconf := tprintf LOG_VERBOSE ''dispatch_poseta_task'' taskDesc (logconf w)\<rparr>;
          looked = getCondition func w1; w2 = snd looked
      in case fst looked of
           None \<Rightarrow>
             (if length taskDesc > 94 then (Inl BufferOverflow, w2)
              else (Inl NullDereference,
                    w2\<lparr>logconf := tprintf LOG_WARNING ''dispatch_poseta_task''
                         (''Task '' @ [CHR 0x22] @ taskDesc @ [CHR 0x22]
                            @ '' is not registered before!'')
                         (logconf w2)\<rparr>))
         | Some lc \<Rightarrow>
             (if cond_index lc = 0 \<or> cond_index lc = 1
              then (case posetaTask_heap w2 (cond_context lc) of
                      None \<Rightarrow> (Inl (InvalidPointer (cond_context lc)), w2)
                    | Some pt \<Rightarrow>
                        (let w3 = w2\<lparr>posetaTask_heap := (posetaTask_heap w2)
                                     (cond_context lc := Some (pt\<lparr>pt_context := ctx\<rparr>))\<rparr>;
                             d = dispatch_described_task (cond_exec lc) (cond_context lc)
                                   taskDesc rs (pool w3)
                         in (Inr d, w3\<lparr>pool := abbey_of d\<rparr>)))
              else (let d = dispatch_described_task (cond_exec lc) (cond_context lc)
                              taskDesc rs (pool w2)
                    in (Inr d, w2\<lparr>pool := abbey_of d\<rparr>))))"

text \<open>A world after \<open>initLog\<close>, \<open>initPoseta\<close> and \<open>initialize_abbey(2, 4)\<close>.\<close>

definition world0 :: world where
  "world0 =
     initPoseta
       \<lparr>posconf_cond = [], posetaTask_heap = (\<lambda>a. None), syncThreads_heap = (\<lambda>a. None),
        heap_top = 1, logconf = initLog LOG_VERBOSE, pool = pool_2_4\<rparr>"

text \<open>The tasks \<open>FnUser 1\<close> and \<open>FnUser 2\<close> registered in this order.\<close>

definition world_1_2 :: world where
  "world_1_2 = poseta_func1_if_func0 (FnUser 1) (FnUser 2) world0"

text \<open>
  The entry that \<open>world_1_2\<close> holds for \<open>FnUser 1\<close>, and a second condition under the same
  name.
\<close>

definition cond_first :: Condition where
  "cond_first =
     \<lparr>cond_name = FnUser 1, cond_index = 0, cond_exec = FnPosetaTask, cond_context = 1\<rparr>"

definition cond_again :: Condition where
  "cond_again =
     \<lparr>cond_name = FnUser 1, cond_index = 1, cond_exec = FnTupleTask, cond_context = 77\<rparr>"

subsection \<open>Two ordered tasks run by two workers\<close>

text \<open>
  A worker that runs \<open>poseta_task\<close> (line 214) is at one of these points. \<open>P_entry\<close>: the
  test of \<open>pt->order\<close>. \<open>P_in_func\<close>: inside the real call \<open>pt->func(pt->context)\<close>. The
  \<open>F\<close> points are the statements of \<open>ptreaty_should_be_first\<close> (lines 265, 267, 269, 270
  and 273), the \<open>L\<close> points those of \<open>ptreaty_should_be_later\<close> (lines 277, 280 and 282;
  \<open>L_waiting\<close> is inside \<open>pthread_cond_wait\<close>). \<open>P_after_treaty\<close>: the treaty has
  returned. \<open>P_returned\<close>: \<open>poseta_task\<close> has returned.
\<close>

datatype pc =
    P_entry | P_in_func
  | F_lock_request | F_broadcast | F_trylock_baton | F_unlock_request | F_unlock_baton
  | L_trylock_request | L_lock_baton | L_cond_wait | L_waiting
  | P_after_treaty | P_returned

text \<open>What an observer sees: the real call of worker \<open>t\<close> begins, or has finished.\<close>

datatype event = Began nat | Finished nat

fun treaty_entry :: "treaty \<Rightarrow> pc" where
  "treaty_entry Treaty_should_be_first = F_lock_request"
| "treaty_entry Treaty_should_be_later = L_trylock_request"

text \<open>
  One statement of \<open>ptreaty_should_be_first\<close> (line 263), run by thread \<open>t\<close>; \<open>None\<close>
  when the thread cannot move (\<open>pthread_mutex_lock\<close> on a held mutex). The broadcast
  empties the list of the signal's waiters.
\<close>

fun ptreaty_should_be_first_step :: "nat \<Rightarrow> pc \<Rightarrow> SyncThreads \<Rightarrow> (pc \<times> SyncThreads) option" where
  "ptreaty_should_be_first_step t F_lock_request st =
     (case request st of
        None \<Rightarrow> Some (F_broadcast, st\<lparr>request := Some t\<rparr>)
      | Some u \<Rightarrow> None)"
| "ptreaty_should_be_first_step t F_broadcast st = Some (F_trylock_baton, st\<lparr>signal := []\<rparr>)"
| "ptreaty_should_be_first_step t F_trylock_baton st =
     (case baton st of
        None \<Rightarrow> Some (F_unlock_baton, st\<lparr>baton := Some t\<rparr>)
      | Some u \<Rightarrow> Some (F_unlock_request, st))"
| "ptreaty_should_be_first_step t F_unlock_request st =
     Some (P_after_treaty, st\<lparr>request := None\<rparr>)"
| "ptreaty_should_be_first_step t F_unlock_baton st =
     Some (P_after_treaty, st\<lparr>baton := None\<rparr>)"
| "ptreaty_should_be_first_step t p st = None"

text \<open>
  One statement of \<open>ptreaty_should_be_later\<close> (line 276). \<open>pthread_cond_wait(st->signal,
  st->request)\<close> releases the request mutex and joins the signal's waiters in one step; a
  thread inside it stays there while it is on the list, and once off the list returns as
  soon as it can take the request mutex again. The code does nothing after that return
  but go on.
\<close>

fun ptreaty_should_be_later_step :: "nat \<Rightarrow> pc \<Rightarrow> SyncThreads \<Rightarrow> (pc \<times> SyncThreads) option" where
  "ptreaty_should_be_later_step t L_trylock_request st =
     (case request st of
        None \<Rightarrow> Some (L_lock_baton, st\<lparr>request := Some t\<rparr>)
      | Some u \<Rightarrow> Some (P_after_treaty, st))"
| "ptreaty_should_be_later_step t L_lock_baton st =
     (case baton st of
        None \<Rightarrow> Some (L_cond_wait, st\<lparr>baton := Some t\<rparr>)
      | Some u \<Rightarrow> None)"
| "ptreaty_should_be_later_step t L_cond_wait st =
     Some (L_waiting, st\<lparr>request := None, signal := signal st @ [t]\<rparr>)"
| "ptreaty_should_be_later_step t L_waiting st =
     (if t \<in> set (signal st) then None
      else (case request st of
              None \<Rightarrow> Some (P_after_treaty, st\<lparr>request := Some t\<rparr>)
            | Some u \<Rightarrow> None))"
| "ptreaty_should_be_later_step t p st = None"

text \<open>
  One step of \<open>poseta_task\<close> on task \<open>pt\<close>, run by thread \<open>t\<close>: the new point, the new
  channel and what became observable. With \<open>order\<close> 0 the real call comes first and the
  treaty after it; otherwise the treaty comes first.
\<close>

definition poseta_task_step ::
  "nat \<Rightarrow> PosetaTask \<Rightarrow> pc \<Rightarrow> SyncThreads \<Rightarrow> (pc \<times> SyncThreads \<times> event list) option" where
  "poseta_task_step t pt p st =
     (if p = P_entry then
        (if pt_order pt = 0 then Some (P_in_func, st, [Began t])
         else Some (treaty_entry (pt_treaty pt), st, []))
      else if p = P_in_func then
        (if pt_order pt = 0 then Some (treaty_entry (pt_treaty pt), st, [Finished t])
         else Some (P_returned, st, [Finished t]))
      else if p = P_after_treaty then
        (if pt_order pt = 0 then Some (P_returned, st, [])
         else Some (P_in_func, st, [Began t]))
      else if p = P_returned then None
      else (case (case pt_treaty pt of
                    Treaty_should_be_first \<Rightarrow> ptreaty_should_be_first_step t p st
                  | Treaty_should_be_later \<Rightarrow> ptreaty_should_be_later_step t p st) of
              None \<Rightarrow> None
            | Some r \<Rightarrow> Some (fst r, snd r, [])))"

text \<open>
  Two workers, thread 0 running the task of the function that must come first and
  thread 1 the task of the function that must come later, on one channel. The scheduler
  picks which worker runs its next statement; a worker that cannot move stays where it
  is. \<open>SpuriousWakeup\<close> is the return of \<open>pthread_cond_wait\<close> without a signal, which
  POSIX allows: thread 1 leaves the list of waiters.
\<close>

record race =
  pc_first :: pc
  pc_later :: pc
  chan :: SyncThreads
  trace :: "event list"

datatype move = RunFirst | RunLater | SpuriousWakeup

definition race_init :: "SyncThreads \<Rightarrow> race" where
  "race_init st = \<lparr>pc_first = P_entry, pc_later = P_entry, chan = st, trace = []\<rparr>"

fun race_step :: "PosetaTask \<Rightarrow> PosetaTask \<Rightarrow> move \<Rightarrow> race \<Rightarrow> race" where
  "race_step pt0 pt1 RunFirst c =
     (case poseta_task_step 0 pt0 (pc_first c) (chan c) of
        None \<Rightarrow> c
      | Some r \<Rightarrow> c\<lparr>pc_first := fst r, chan := fst (snd r), trace := trace c @ snd (snd r)\<rparr>)"
| "race_step pt0 pt1 RunLater c =
     (case poseta_task_step 1 pt1 (pc_later c) (chan c) of
        None \<Rightarrow> c
      | Some r \<Rightarrow> c\<lparr>pc_later := fst r, chan := fst (snd r), trace := trace c @ snd (snd r)\<rparr>)"
| "race_step pt0 pt1 SpuriousWakeup c =
     c\<lparr>chan := (chan c)\<lparr>signal := removeAll 1 (signal (chan c))\<rparr>\<rparr>"

fun race_run :: "PosetaTask \<Rightarrow> PosetaTask \<Rightarrow> move list \<Rightarrow> race \<Rightarrow> race" where
  "race_run pt0 pt1 [] c = c"
| "race_run pt0 pt1 (m # ms) c = race_run pt0 pt1 ms (race_step pt0 pt1 m c)"

text \<open>
  The order asked for: reading the trace from its start, the real call of thread 0 has
  finished before the real call of thread 1 begins.
\<close>

fun in_order :: "event list \<Rightarrow> bool" where
  "in_order [] = True"
| "in_order (e # es) =
     (if e = Finished 0 then True else if e = Began 1 then False else in_order es)"

text \<open>
  The run of the two tasks registered for \<open>func0\<close> and \<open>func1\<close> in world \<open>w\<close> under a
  schedule: the trace when both are registered on one channel, \<open>None\<close> otherwise.
\<close>

definition registered_task :: "funcptr \<Rightarrow> world \<Rightarrow> PosetaTask option" where
  "registered_task name w =
     (case lookup_condition name (posconf_cond w) of
        None \<Rightarrow> None
      | Some lc \<Rightarrow> posetaTask_heap w (cond_context lc))"

definition run_registered :: "funcptr \<Rightarrow> funcptr \<Rightarrow> move list \<Rightarrow> world \<Rightarrow> event list option" where
  "run_registered func0 func1 ms w =
     (case (registered_task func0 w, registered_task func1 w) of
        (Some pt0, Some pt1) \<Rightarrow>
          (if pt_st pt0 = pt_st pt1
           then (case syncThreads_heap w (pt_st pt0) of
                   None \<Rightarrow> None
                 | Some st \<Rightarrow> Some (trace (race_run pt0 pt1 ms (race_init st))))
           else None)
      | other \<Rightarrow> None)"

text \<open>
  The worker of the later task arrives first and waits; its wait returns without a
  signal; it goes on. The worker of the first task has not moved.
\<close>

definition later_wakes_early :: "move list" where
  "later_wakes_early =
     [RunLater, RunLater, RunLater, RunLater, SpuriousWakeup, RunLater, RunLater, RunLater]"

text \<open>
  What holds at every point of a run in which no wait returns without a signal. Thread 0
  holds the request mutex only after its real call has finished; thread 1 is past its
  treaty, or awake inside the wait, only after that too.
\<close>

definition order_inv :: "race \<Rightarrow> bool" where
  "order_inv c =
     ((pc_first c = P_entry \<or> pc_first c = P_in_func \<or> Finished 0 \<in> set (trace c))
      \<and> (request (chan c) = Some 0 \<longrightarrow> Finished 0 \<in> set (trace c))
      \<and> (request (chan c) = None \<or> request (chan c) = Some 0 \<or> request (chan c) = Some 1)
      \<and> (request (chan c) = Some 1 \<longrightarrow> pc_later c \<noteq> P_entry \<and> pc_later c \<noteq> L_trylock_request)
      \<and> (pc_later c = L_waiting \<longrightarrow> 1 \<in> set (signal (chan c)) \<or> Finished 0 \<in> set (trace c))
      \<and> (pc_later c = P_after_treaty \<or> pc_later c = P_in_func \<or> pc_later c = P_returned
            \<longrightarrow> Finished 0 \<in> set (trace c))
      \<and> in_order (trace c))"

section \<open>Mailboxes: tcpip.c\<close>

text \<open>
  \<open>struct TcpipMessage\<close> and \<open>struct TcpipMailbox\<close>. A message is known by its address; a
  pointer to a message is \<open>None\<close> for \<open>NULL\<close>. The messages live in a store from addresses
  to structs, so that the \<open>next\<close> links are shared as they are in the C program. The
  mailbox's mutex is the flag \<open>mb_lock\<close>, true while some thread holds it.
\<close>

record TcpipMessage =
  msg_size :: "8 word"
  msg_payload :: "8 word list"
  msg_next :: "nat option"

record TcpipMailbox =
  mb_first :: "nat option"
  mb_last :: "nat option"
  mb_lock :: bool

text \<open>
  \<open>push\<close> (line 87). With a first message present the code writes through \<open>M->last\<close>
  without a test.
\<close>

definition push ::
  "TcpipMailbox \<Rightarrow> nat \<Rightarrow> (nat \<Rightarrow> TcpipMessage)
     \<Rightarrow> (fault + TcpipMailbox \<times> (nat \<Rightarrow> TcpipMessage)) outcome" where
  "push M m h =
     (if mb_lock M then Blocks (Inr (M, h))
      else (case mb_first M of
              None \<Rightarrow>
                Returns (Inr (M\<lparr>mb_first := Some m, mb_last := Some m\<rparr>,
                              h(m := (h m)\<lparr>msg_next := None\<rparr>)))
            | Some f \<Rightarrow>
                (case mb_last M of
                   None \<Rightarrow> Returns (Inl NullDereference)
                 | Some l \<Rightarrow>
                     (let h1 = h(l := (h l)\<lparr>msg_next := Some m\<rparr>)
                      in Returns (Inr (M\<lparr>mb_last := Some m\<rparr>,
                                       h1(m := (h1 m)\<lparr>msg_next := None\<rparr>)))))))"

text \<open>\<open>pop\<close> (line 123): the message returned (\<open>None\<close> for \<open>NULL\<close>), the mailbox, the store.\<close>

definition pop ::
  "TcpipMailbox \<Rightarrow> (nat \<Rightarrow> TcpipMessage)
     \<Rightarrow> (nat option \<times> TcpipMailbox \<times> (nat \<Rightarrow> TcpipMessage)) outcome" where
  "pop M h =
     (if mb_lock M then Blocks (None, M, h)
      else (case mb_first M of
              None \<Rightarrow> Returns (None, M, h)
            | Some m \<Rightarrow>
                Returns (Some m, M\<lparr>mb_first := msg_next (h m)\<rparr>,
                         h(m := (h m)\<lparr>msg_next := None\<rparr>))))"

text \<open>
  The messages in a mailbox, oldest first: the chain of \<open>next\<close> links from \<open>M->first\<close> to
  \<open>NULL\<close>. \<open>holds h M xs\<close>: the unlocked mailbox \<open>M\<close> holds exactly the messages \<open>xs\<close>, each
  once, and \<open>M->last\<close> points to the newest when there is one.
\<close>

fun msg_chain :: "(nat \<Rightarrow> TcpipMessage) \<Rightarrow> nat option \<Rightarrow> nat list \<Rightarrow> bool" where
  "msg_chain h p [] = (p = None)"
| "msg_chain h p (x # xs) = (p = Some x \<and> msg_chain h (msg_next (h x)) xs)"

definition holds :: "(nat \<Rightarrow> TcpipMessage) \<Rightarrow> TcpipMailbox \<Rightarrow> nat list \<Rightarrow> bool" where
  "holds h M xs =
     (msg_chain h (mb_first M) xs \<and> distinct xs
      \<and> (xs = [] \<or> mb_last M = Some (last xs)) \<and> mb_lock M = False)"

text \<open>The oldest message of a list of messages, and the result of a pop.\<close>

fun oldest :: "nat list \<Rightarrow> nat option" where
  "oldest [] = None"
| "oldest (x # xs) = Some x"

fun popped :: "(nat option \<times> TcpipMailbox \<times> (nat \<Rightarrow> TcpipMessage)) outcome \<Rightarrow> nat option" where
  "popped (Returns r) = fst r"
| "popped (Blocks r) = None"

text \<open>\<open>push(M, m); pop(M)\<close>: what the pop returns (\<open>None\<close> also when the push did not return a mailbox).\<close>

definition push_then_pop ::
  "TcpipMailbox \<Rightarrow> nat \<Rightarrow> (nat \<Rightarrow> TcpipMessage)
     \<Rightarrow> (nat option \<times> TcpipMailbox \<times> (nat \<Rightarrow> TcpipMessage)) outcome" where
  "push_then_pop M m h =
     (case push M m h of
        Returns (Inr Mh) \<Rightarrow> pop (fst Mh) (snd Mh)
      | other \<Rightarrow> Blocks (None, M, h))"

text \<open>An empty mailbox and a store of empty messages.\<close>

definition empty_mailbox :: TcpipMailbox where
  "empty_mailbox = \<lparr>mb_first = None, mb_last = None, mb_lock = False\<rparr>"

definition blank_store :: "nat \<Rightarrow> TcpipMessage" where
  "blank_store a = \<lparr>msg_size = 0, msg_payload = [], msg_next = None\<rparr>"

text \<open>
  A sequence of calls on one mailbox, and what its pops return, in order; \<open>None\<close> when a
  call faults or blocks.
\<close>

datatype mb_op = Push nat | Pop

fun run_mailbox ::
  "mb_op list \<Rightarrow> TcpipMailbox \<Rightarrow> (nat \<Rightarrow> TcpipMessage) \<Rightarrow> nat option list option" where
  "run_mailbox [] M h = Some []"
| "run_mailbox (Push m # ops) M h =
     (case push M m h of
        Returns (Inr Mh) \<Rightarrow> run_mailbox ops (fst Mh) (snd Mh)
      | other \<Rightarrow> None)"
| "run_mailbox (Pop # ops) M h =
     (case pop M h of
        Returns r \<Rightarrow> map_option (\<lambda>out. fst r # out) (run_mailbox ops (fst (snd r)) (snd (snd r)))
      | Blocks r \<Rightarrow> None)"

text \<open>
  The queue of the specification, in its words: push appends, pop removes the oldest
  message and returns it, pop on the empty queue returns the empty sentinel. A message
  has one \<open>next\<close> link, so it is in a mailbox once at most: a push of a message that is
  still queued is outside the specification (\<open>None\<close>).
\<close>

fun fifo_spec :: "mb_op list \<Rightarrow> nat list \<Rightarrow> nat option list option" where
  "fifo_spec [] q = Some []"
| "fifo_spec (Push m # ops) q = (if m \<in> set q then None else fifo_spec ops (q @ [m]))"
| "fifo_spec (Pop # ops) q = map_option (\<lambda>out. oldest q # out) (fifo_spec ops (tl q))"

text \<open>
  Mailboxes to try: one whose \<open>last\<close> still points to a message popped earlier, and one
  that holds the messages at addresses 7 and 8.
\<close>

definition stale_mailbox :: TcpipMailbox where
  "stale_mailbox = \<lparr>mb_first = None, mb_last = Some 5, mb_lock = False\<rparr>"

definition mailbox_7_8 :: TcpipMailbox where
  "mailbox_7_8 = \<lparr>mb_first = Some 7, mb_last = Some 8, mb_lock = False\<rparr>"

definition store_7_8 :: "nat \<Rightarrow> TcpipMessage" where
  "store_7_8 = blank_store(7 := \<lparr>msg_size = 0, msg_payload = [], msg_next = Some 8\<rparr>)"

section \<open>Properties of the thread pool\<close>


lemma find_slot_bound:
  "find_slot st s = Some i \<Longrightarrow>
   dedicatedTaskBuffer s \<le> i \<and> i < nofTasks s \<and> task_state (task s ! i) = st"
  unfolding find_slot_def by (auto simp: find_Some_iff)








text \<open>
  The retried pass runs without the mutex. On \<open>pool_1_3_d\<close> the reserve is 2 and the
  growth succeeds, but a worker inside \<open>addMonk\<close> holds the reserve at 0 when the retried
  pass reads it: the dispatch waits although no \<open>realloc\<close> failed.
\<close>

lemma unlocked_retry_waits_behind_addMonk:
  "dedicatedTaskBuffer pool_1_3_d = 2
   \<and> map task_state (task pool_1_3_d) = [2, 2, 2]
   \<and> dispatch_waits
        (dispatch_described_task (FnUser 4) 0 ''fourth''
           [(Some junk_open, monk_in_addMonk)] pool_1_3_d)
   \<and> nofTasks (abbey_of
        (dispatch_described_task (FnUser 4) 0 ''fourth''
           [(Some junk_open, monk_in_addMonk)] pool_1_3_d)) = 7"
  by code_simp

text \<open>
  While the reserve is 2 at the call, every \<open>realloc\<close> succeeds and no other thread
  touches the pool, the slot a search returns is never one of the two leading slots.
\<close>

lemma reserve_respected_while_growth_succeeds:
  "dedicatedTaskBuffer s = 2 \<Longrightarrow> list_all (\<lambda>g. fst g \<noteq> None \<and> snd g = alone) gs \<Longrightarrow>
   find_task_and_change_state st newState False gs s = Found i s' \<Longrightarrow> 2 \<le> i"
proof (induction gs arbitrary: s)
  case Nil
  then show ?case
    by (auto simp: find_task_and_change_state.simps dest!: find_slot_bound
        split: option.splits if_splits)
next
  case (Cons g gs)
  show ?case
  proof (cases "find_slot st s")
    case None
    from Cons.prems(2) obtain t where r: "fst g = Some t" and f: "snd g = alone"
      by auto
    let ?s' = "snd g (increaseTaskBuffer (taskBufferContent s) (fst g)
                        (s\<lparr>dedicatedTaskBuffer := 0\<rparr>))"
    have d: "dedicatedTaskBuffer ?s' = 2"
      by (simp add: r f alone_def increaseTaskBuffer_def)
    from Cons.prems None
    have "find_task_and_change_state st newState False gs ?s' = Found i s'"
      by (subst (asm) find_task_and_change_state.simps) (simp split: if_splits)
    from Cons.IH [OF d _ this] Cons.prems(2) show ?thesis
      by simp
  next
    case (Some j)
    with Cons.prems show ?thesis
      by (auto simp: find_task_and_change_state.simps dest!: find_slot_bound)
  qed
qed

text \<open>
  Claim C4: no dispatch call takes a leading reserved slot (index below 2) from READY to
  CREATING. The code breaks it: \<open>increaseTaskBuffer\<close> returns early when \<open>realloc\<close> fails
  and leaves \<open>dedicatedTaskBuffer\<close> at 0, so the retry of the search starts at index 0.
  On \<open>pool_1_3_a\<close> the dispatch claims slot 0 and fills it with the caller's function.
\<close>

theorem reserved_slot_claimed_after_failed_growth:
  "dedicatedTaskBuffer pool_1_3_a = 2
   \<and> map task_state (task pool_1_3_a) = [0, 0, 2]
   \<and> claimed_slot (find_task_and_change_state TS_READY TS_CREATING False [(None, alone)] pool_1_3_a) = Some 0
   \<and> map task_state (task (find_state
        (find_task_and_change_state TS_READY TS_CREATING False [(None, alone)] pool_1_3_a))) = [1, 0, 2]
   \<and> map task_func (task pool_1_3_b) = [FnUser 2, FnNull, FnUser 1]"
  by code_simp






text \<open>
  On a slot that \<open>realloc\<close> handed out with no zero byte in its description, a
  description of 63 characters or more leaves the array without a terminator.
\<close>

lemma description_unterminated_on_dirty_slot:
  "claimed_slot (find_task_and_change_state TS_READY TS_CREATING False
       [(Some junk_dirty, alone)] pool_1_3_a) = Some 3
   \<and> task_description
        (task (abbey_of (dispatch_described_task (FnUser 5) 0 long_description
                 [(Some junk_dirty, alone)] pool_1_3_a)) ! 3) =
       replicate 63 (CHR ''d'') @ [CHR ''x'']"
  by code_simp

text \<open>
  Every call of \<open>addMonk\<close> whose \<open>realloc\<close> and \<open>pthread_create\<close> succeed writes the handle
  one past the end of the block.
\<close>

lemma addMonk_always_out_of_bounds:
  "abbey_ok s \<Longrightarrow>
   addMonk (Some junk) (Some h) s = Inl (OutOfBounds (nofMonks s + 1) (nofMonks s + 1))"
  by (simp add: addMonk_def abbey_ok_def Let_def)

text \<open>
  Claim C9: the index at which \<open>addMonk\<close> stores the new handle is below the new worker
  count. The code breaks it: the block is reallocated to \<open>nofMonks + 1\<close> cells, the
  counter is incremented, and the incremented counter is the index. With two workers the
  block has 3 cells and the index is 3.
\<close>

theorem addMonk_index_out_of_bounds:
  "nofMonks pool_2_4 = 2 \<and> length (threadId pool_2_4) = 2
   \<and> addMonk (Some 0) (Some 102) pool_2_4 = Inl (OutOfBounds 3 3)"
  by code_simp

text \<open>A new slot holds what the memory held.\<close>

lemma increaseTaskBuffer_new_slots:
  "abbey_ok s \<Longrightarrow> k < amount \<Longrightarrow>
   task (increaseTaskBuffer amount (Some g) s) ! (nofTasks s + k) = g (nofTasks s + k)"
  by (simp add: increaseTaskBuffer_def abbey_ok_def nth_append)

text \<open>
  Claim C10: after \<open>increaseTaskBuffer\<close> every new slot is READY. The code breaks it:
  \<open>realloc\<close> does not clear the new cells (\<open>initialize_abbey\<close> uses \<open>calloc\<close>) and
  \<open>increaseTaskBuffer\<close> does not write them. When the memory reads as state 2, a worker
  looking for an OPEN slot takes new slot 4, which nobody dispatched.
\<close>

theorem grown_slots_not_ready:
  "map task_state (task (increaseTaskBuffer 4 (Some junk_open) pool_2_4)) =
     [0, 0, 0, 0, 2, 2, 2, 2]
   \<and> task_state (task (increaseTaskBuffer 4 (Some junk_open) pool_2_4) ! 4) \<noteq> TS_READY
   \<and> claimed_slot (find_task_and_change_state TS_OPEN TS_BUSY True []
        (increaseTaskBuffer 4 (Some junk_open) pool_2_4)) = Some 4"
  by code_simp

section \<open>Properties of the channels\<close>

text \<open>
  Claim C2, as amended. A signal (\<open>ptreaty_make_m_run\<close>) sent while the request mutex is
  free is not remembered: the call leaves the channel as it found it, counter included,
  and a wait that follows on a counter of 0 blocks. A signal sent while the request
  mutex is held (the flag is hoisted) and the baton is free is counted, and unless the
  8-bit counter wraps to 0 the wait that follows returns at once and takes the count
  back.
\<close>

theorem signal_counted_only_when_flag_hoisted:
  "(request st = None \<longrightarrow>
      ptreaty_make_m_run s st = Returns st
      \<and> (predicate st = 0 \<longrightarrow> blocks (signal_then_wait s w st)))
   \<and> (request st \<noteq> None \<and> baton st = None \<longrightarrow>
        ptreaty_make_m_run s st =
          Returns (st\<lparr>predicate := predicate st + 1, signal := tl (signal st)\<rparr>)
        \<and> (predicate st \<noteq> 255 \<longrightarrow>
             signal_then_wait s w st = Returns (st\<lparr>signal := tl (signal st)\<rparr>)))"
proof (intro conjI impI)
  assume free: "request st = None"
  then show run: "ptreaty_make_m_run s st = Returns st"
    by (simp add: ptreaty_make_m_run_def ptreaty_flag_hoisted_def Let_def)
  assume "predicate st = 0"
  then show "blocks (signal_then_wait s w st)"
    by (simp add: signal_then_wait_def run ptreaty_wait_def)
next
  assume h: "request st \<noteq> None \<and> baton st = None"
  then show run: "ptreaty_make_m_run s st =
      Returns (st\<lparr>predicate := predicate st + 1, signal := tl (signal st)\<rparr>)"
    by (auto simp: ptreaty_make_m_run_def ptreaty_flag_hoisted_def Let_def)
  assume "predicate st \<noteq> 255"
  then have "predicate st + 1 \<noteq> 0"
    by (auto simp: eq_neg_iff_add_eq_0 [symmetric])
  then show "signal_then_wait s w st = Returns (st\<lparr>signal := tl (signal st)\<rparr>)"
    by (simp add: signal_then_wait_def run ptreaty_wait_def)
qed

text \<open>A fresh channel, and the same channel with the flag hoisted by thread 1.\<close>

theorem signal_counted_only_when_flag_hoisted_witness:
  "ptreaty_make_m_run 2 ptreaty_init = Returns ptreaty_init
   \<and> blocks (signal_then_wait 2 1 ptreaty_init)
   \<and> signal_then_wait 2 1 hoisted_channel = Returns hoisted_channel"
proof -
  have a: "request ptreaty_init = None" "predicate ptreaty_init = 0"
    by (simp_all add: ptreaty_init_def)
  have b: "request hoisted_channel \<noteq> None \<and> baton hoisted_channel = None"
    "predicate hoisted_channel \<noteq> 255" "tl (signal hoisted_channel) = signal hoisted_channel"
    by (simp_all add: hoisted_channel_def ptreaty_hoist_flag_def ptreaty_init_def)
  show ?thesis
    using signal_counted_only_when_flag_hoisted [of ptreaty_init 2 1]
      signal_counted_only_when_flag_hoisted [of hoisted_channel 2 1] a b
    by simp
qed

text \<open>
  Claim C2 as stated fails. On a fresh channel, with no waiter and the flag not hoisted,
  the signal changes nothing and the wait that follows blocks; so does a wait made the
  way the processes make it, after \<open>ptreaty_init_baton\<close> and \<open>ptreaty_hoist_flag\<close>.
\<close>

theorem early_signal_lost_counterexample:
  "ptreaty_make_m_run 2 ptreaty_init = Returns ptreaty_init
   \<and> predicate (outcome_state (ptreaty_make_m_run 2 ptreaty_init)) = 0
   \<and> blocks (signal_then_wait 2 1 ptreaty_init)
   \<and> blocks (ptreaty_wait 1 (outcome_state (ptreaty_hoist_flag 1 (outcome_state
        (ptreaty_init_baton 1 (outcome_state (ptreaty_make_m_run 2 ptreaty_init)))))))"
  by (simp add: ptreaty_make_m_run_def ptreaty_flag_hoisted_def ptreaty_init_def
      signal_then_wait_def ptreaty_wait_def ptreaty_hoist_flag_def ptreaty_init_baton_def Let_def)

section \<open>Properties of the registry\<close>

lemma getCondition_lookup: "fst (getCondition name w) = lookup_condition name (posconf_cond w)"
  by (simp add: getCondition_def split: list.splits)

lemma getCondition_registry: "posconf_cond (snd (getCondition name w)) = posconf_cond w"
  by (simp add: getCondition_def split: list.splits)

lemma getCondition_log_cong:
  "fst (getCondition name (w\<lparr>logconf := lg\<rparr>)) = fst (getCondition name w)"
  by (simp add: getCondition_lookup)

lemma addCondition_lookup_stable:
  "lookup_condition name (posconf_cond w) = Some e \<Longrightarrow>
   lookup_condition name (posconf_cond (addCondition c w)) = Some e"
  by (cases "posconf_cond w")
     (auto simp: addCondition_def getCondition_def split: option.splits)

lemma poseta_func1_if_func0_lookup_stable:
  "lookup_condition name (posconf_cond w) = Some e \<Longrightarrow>
   lookup_condition name (posconf_cond (poseta_func1_if_func0 func0 func1 w)) = Some e"
  unfolding poseta_func1_if_func0_def Let_def
  by (intro addCondition_lookup_stable) simp

text \<open>
  Claim C7. When the name of a condition is already registered, \<open>addCondition\<close> leaves
  the registry as it is, prints the alert, and a lookup of the name still returns the
  entry it returned before; the same holds for the name after \<open>poseta_func1_if_func0\<close>
  is called with it again, as first or as second function.
\<close>

theorem addCondition_rejects_duplicate:
  assumes reg: "fst (getCondition (cond_name c) w) = Some e"
  shows "posconf_cond (addCondition c w) = posconf_cond w
       \<and> fst (getCondition (cond_name c) (addCondition c w)) = Some e
       \<and> logconf (addCondition c w) =
           tprintf LOG_ALERT ''addCondition'' ''Condition exists already'' (logconf w)
       \<and> fst (getCondition (cond_name c)
                (poseta_func1_if_func0 (cond_name c) other w)) = Some e
       \<and> fst (getCondition (cond_name c)
                (poseta_func1_if_func0 other (cond_name c) w)) = Some e"
proof -
  from reg have l: "lookup_condition (cond_name c) (posconf_cond w) = Some e"
    by (simp add: getCondition_lookup)
  then obtain lc rest where ne: "posconf_cond w = lc # rest"
    by (cases "posconf_cond w") auto
  have a: "posconf_cond (addCondition c w) = posconf_cond w"
    using l ne by (auto simp: addCondition_def getCondition_def)
  have b: "logconf (addCondition c w) =
           tprintf LOG_ALERT ''addCondition'' ''Condition exists already'' (logconf w)"
    using l ne by (auto simp: addCondition_def getCondition_def)
  show ?thesis
    using a b l poseta_func1_if_func0_lookup_stable [OF l]
    by (simp add: getCondition_lookup)
qed

text \<open>\<open>FnUser 1\<close> is registered in \<open>world_1_2\<close>; a second condition under its name is rejected.\<close>

theorem addCondition_rejects_duplicate_witness:
  "fst (getCondition (FnUser 1) world_1_2) = Some cond_first
   \<and> map cond_name (posconf_cond world_1_2) = [FnUser 2, FnUser 1]
   \<and> posconf_cond (addCondition cond_again world_1_2) = posconf_cond world_1_2
   \<and> fst (getCondition (FnUser 1) (addCondition cond_again world_1_2)) = Some cond_first
   \<and> printed (logconf (addCondition cond_again world_1_2)) =
       printed (logconf world_1_2) @ [(LOG_ALERT, ''addCondition'', ''Condition exists already'')]
   \<and> fst (getCondition (FnUser 1) (poseta_func1_if_func0 (FnUser 1) (FnUser 3) world_1_2)) = Some cond_first"
proof -
  have r: "fst (getCondition (cond_name cond_again) world_1_2) = Some cond_first"
    by code_simp
  have n: "cond_name cond_again = FnUser 1"
    by (simp add: cond_again_def)
  have m: "map cond_name (posconf_cond world_1_2) = [FnUser 2, FnUser 1]"
    by code_simp
  have p: "printed (tprintf LOG_ALERT ''addCondition'' ''Condition exists already'' (logconf world_1_2)) =
       printed (logconf world_1_2) @ [(LOG_ALERT, ''addCondition'', ''Condition exists already'')]"
    by code_simp
  show ?thesis
    using addCondition_rejects_duplicate [OF r, of "FnUser 3"] r m p
    by (simp add: n)
qed

text \<open>
  Claim C5. When the lookup of the function returns no entry, \<open>dispatch_poseta_task\<close>
  ends in a read through the null pointer \<open>lc\<close>: nothing is dispatched (the pool and the
  tasks are untouched), and the last line printed, when warnings are printed, is the
  warning that the task is not registered.
\<close>

theorem dispatch_unregistered_dereferences_null:
  assumes miss: "fst (getCondition func w) = None"
    and fits: "length taskDesc \<le> 94"
  shows "fst (dispatch_poseta_task func ctx taskDesc rs w) = Inl NullDereference
       \<and> pool (snd (dispatch_poseta_task func ctx taskDesc rs w)) = pool w
       \<and> posetaTask_heap (snd (dispatch_poseta_task func ctx taskDesc rs w)) = posetaTask_heap w
       \<and> (LOG_WARNING \<le> levelOfVerbosity (logconf w) \<longrightarrow>
            last (printed (logconf (snd (dispatch_poseta_task func ctx taskDesc rs w)))) =
              (LOG_WARNING, ''dispatch_poseta_task'',
               ''Task '' @ [CHR 0x22] @ taskDesc @ [CHR 0x22] @ '' is not registered before!''))"
proof -
  let ?w1 = "w\<lparr>logconf := tprintf LOG_VERBOSE ''dispatch_poseta_task'' taskDesc (logconf w)\<rparr>"
  have m1: "fst (getCondition func ?w1) = None"
    using miss by (simp add: getCondition_lookup)
  have lvl: "levelOfVerbosity (logconf (snd (getCondition func ?w1))) = levelOfVerbosity (logconf w)"
    by (simp add: getCondition_def tprintf_def split: list.splits)
  have rest: "pool (snd (getCondition func ?w1)) = pool w"
    "posetaTask_heap (snd (getCondition func ?w1)) = posetaTask_heap w"
    by (simp_all add: getCondition_def split: list.splits)
  show ?thesis
    using m1 fits lvl rest
    by (simp add: dispatch_poseta_task_def Let_def tprintf_def not_less [symmetric])
qed

text \<open>\<open>FnUser 3\<close> is not registered in \<open>world_1_2\<close>.\<close>

theorem dispatch_unregistered_dereferences_null_witness:
  "fst (getCondition (FnUser 3) world_1_2) = None
   \<and> fst (dispatch_poseta_task (FnUser 3) 0 ''stray'' [] world_1_2) = Inl NullDereference
   \<and> pool (snd (dispatch_poseta_task (FnUser 3) 0 ''stray'' [] world_1_2)) = pool world_1_2
   \<and> last (printed (logconf (snd (dispatch_poseta_task (FnUser 3) 0 ''stray'' [] world_1_2)))) =
       (LOG_WARNING, ''dispatch_poseta_task'', ''Task '' @ [CHR 0x22] @ ''stray'' @ [CHR 0x22] @ '' is not registered before!'')"
proof -
  have miss: "fst (getCondition (FnUser 3) world_1_2) = None"
    by code_simp
  have fits: "length ''stray'' \<le> 94"
    by simp
  have lvl: "LOG_WARNING \<le> levelOfVerbosity (logconf world_1_2)"
    by code_simp
  show ?thesis
    using dispatch_unregistered_dereferences_null [OF miss fits, of 0 "[]"] miss lvl
    by simp
qed

section \<open>Properties of the precedence protocol\<close>

text \<open>
  Without a wait that returns unsignalled, the order holds under every schedule of the
  two workers.
\<close>

lemma in_order_snoc:
  "in_order tr \<Longrightarrow> (e = Began 1 \<longrightarrow> Finished 0 \<in> set tr) \<Longrightarrow> in_order (tr @ [e])"
  by (induction tr) auto

lemma first_step_inv:
  assumes "pt_order pt0 = 0" "pt_treaty pt0 = Treaty_should_be_first" "order_inv c"
  shows "order_inv (race_step pt0 pt1 RunFirst c)"
  using assms
  by (cases "pc_first c")
     (auto simp: order_inv_def poseta_task_step_def in_order_snoc split: option.splits)

lemma later_step_inv:
  assumes "pt_order pt1 \<noteq> 0" "pt_treaty pt1 = Treaty_should_be_later" "order_inv c"
  shows "order_inv (race_step pt0 pt1 RunLater c)"
  using assms
  by (cases "pc_later c")
     (auto simp: order_inv_def poseta_task_step_def in_order_snoc split: option.splits)

lemma race_run_inv:
  assumes "pt_order pt0 = 0" "pt_treaty pt0 = Treaty_should_be_first"
    "pt_order pt1 \<noteq> 0" "pt_treaty pt1 = Treaty_should_be_later"
  shows "SpuriousWakeup \<notin> set ms \<Longrightarrow> order_inv c \<Longrightarrow> order_inv (race_run pt0 pt1 ms c)"
proof (induction ms arbitrary: c)
  case Nil
  then show ?case by simp
next
  case (Cons m ms)
  then have "order_inv (race_step pt0 pt1 m c)"
    using first_step_inv [OF assms(1,2)] later_step_inv [OF assms(3,4)]
    by (cases m) auto
  with Cons show ?case by simp
qed

lemma order_kept_without_spurious_wakeup:
  assumes "pt_order pt0 = 0" "pt_treaty pt0 = Treaty_should_be_first"
    "pt_order pt1 \<noteq> 0" "pt_treaty pt1 = Treaty_should_be_later"
    "SpuriousWakeup \<notin> set ms"
  shows "in_order (trace (race_run pt0 pt1 ms (race_init ptreaty_init)))"
proof -
  have "order_inv (race_init ptreaty_init)"
    by (simp add: order_inv_def race_init_def ptreaty_init_def)
  from race_run_inv [OF assms(1-4) assms(5) this] show ?thesis
    by (simp add: order_inv_def)
qed

text \<open>
  Claim C1: once the pair is registered, the real call of the later task never begins
  before the real call of the first task has finished. The code breaks it:
  \<open>ptreaty_should_be_later\<close> calls \<open>pthread_cond_wait\<close> once, with no condition to test
  again when it returns (\<open>ptreaty_wait\<close> loops on its counter). When the later task
  arrives first and its wait returns without a signal, its real call runs, and finishes,
  while the first task has not started.
\<close>

theorem later_task_runs_first_after_spurious_wakeup:
  "run_registered (FnUser 1) (FnUser 2) later_wakes_early world_1_2 =
     Some [Began 1, Finished 1]
   \<and> in_order [Began 1, Finished 1] = False"
  by code_simp

section \<open>Properties of the mailbox\<close>

lemma msg_chain_update_other:
  "a \<notin> set xs \<Longrightarrow> msg_chain (h(a := v)) p xs = msg_chain h p xs"
  by (induction xs arbitrary: p) auto

lemma msg_chain_append:
  "msg_chain h p xs \<Longrightarrow> distinct xs \<Longrightarrow> m \<notin> set xs \<Longrightarrow> xs \<noteq> [] \<Longrightarrow>
   msg_next v = None \<Longrightarrow>
   msg_chain (h(last xs := (h (last xs))\<lparr>msg_next := Some m\<rparr>, m := v)) p (xs @ [m])"
proof (induction xs arbitrary: p)
  case Nil
  then show ?case by simp
next
  case (Cons x xs)
  show ?case
  proof (cases "xs = []")
    case True
    with Cons.prems show ?thesis by auto
  next
    case False
    with Cons.prems have "x \<noteq> last xs" "x \<noteq> m"
      by auto
    with Cons False show ?thesis
      by auto
  qed
qed

lemma push_holds:
  assumes "holds h M xs" and "m \<notin> set xs"
  shows "\<exists>M' h'. push M m h = Returns (Inr (M', h')) \<and> holds h' M' (xs @ [m])"
proof (cases xs)
  case Nil
  with assms show ?thesis
    by (simp add: holds_def push_def)
next
  case (Cons x xs')
  with assms have f: "mb_first M = Some x" and l: "mb_last M = Some (last xs)"
    and ch: "msg_chain h (mb_first M) xs" and d: "distinct xs" and u: "mb_lock M = False"
    and ne: "xs \<noteq> []"
    by (auto simp: holds_def)
  let ?h1 = "h(last xs := (h (last xs))\<lparr>msg_next := Some m\<rparr>)"
  have "msg_chain (?h1(m := (?h1 m)\<lparr>msg_next := None\<rparr>)) (mb_first M) (xs @ [m])"
    using msg_chain_append [OF ch d assms(2) ne, of "(?h1 m)\<lparr>msg_next := None\<rparr>"] by simp
  then show ?thesis
    using f l d u assms(2) by (simp add: push_def holds_def Let_def)
qed

lemma pop_holds:
  assumes "holds h M xs"
  shows "\<exists>M' h'. pop M h = Returns (oldest xs, M', h') \<and> holds h' M' (tl xs)"
proof (cases xs)
  case Nil
  with assms show ?thesis
    by (simp add: holds_def pop_def)
next
  case (Cons x xs')
  with assms have f: "mb_first M = Some x" and ch: "msg_chain h (msg_next (h x)) xs'"
    and d: "distinct xs'" "x \<notin> set xs'" and u: "mb_lock M = False"
    and l: "xs' = [] \<or> mb_last M = Some (last xs')"
    by (auto simp: holds_def)
  have "msg_chain (h(x := (h x)\<lparr>msg_next := None\<rparr>)) (msg_next (h x)) xs'"
    using ch d(2) by (simp add: msg_chain_update_other)
  then show ?thesis
    using f d u l Cons by (simp add: pop_def holds_def)
qed

lemma run_mailbox_refines:
  "holds h M q \<Longrightarrow> fifo_spec ops q = Some out \<Longrightarrow> run_mailbox ops M h = Some out"
proof (induction ops arbitrary: h M q out)
  case Nil
  then show ?case by simp
next
  case (Cons op ops)
  show ?case
  proof (cases op)
    case (Push m)
    with Cons.prems have fresh: "m \<notin> set q" and rest: "fifo_spec ops (q @ [m]) = Some out"
      by (auto split: if_splits)
    from push_holds [OF Cons.prems(1) fresh] obtain M' h'
      where p: "push M m h = Returns (Inr (M', h'))" and inv: "holds h' M' (q @ [m])"
      by blast
    from Cons.IH [OF inv rest] p Push show ?thesis
      by simp
  next
    case Pop
    with Cons.prems obtain out' where rest: "fifo_spec ops (tl q) = Some out'"
      and out: "out = oldest q # out'"
      by auto
    from pop_holds [OF Cons.prems(1)] obtain M' h'
      where p: "pop M h = Returns (oldest q, M', h')" and inv: "holds h' M' (tl q)"
      by blast
    from Cons.IH [OF inv rest] p Pop out show ?thesis
      by simp
  qed
qed

text \<open>
  Claim C8. On a mailbox that holds the messages \<open>xs\<close>, oldest first, a push of a message
  not in it returns and leaves \<open>xs\<close> followed by the message; a pop returns the oldest
  message and leaves the rest, and on the empty mailbox it returns \<open>NULL\<close> and changes
  nothing; a push and then a pop on the empty mailbox returns the message pushed; and
  every sequence of pushes and pops returns what the queue of the specification returns.
  No call blocks.
\<close>

theorem mailbox_fifo:
  assumes inv: "holds h M xs" and fresh: "m \<notin> set xs"
  shows "(\<exists>M' h'. push M m h = Returns (Inr (M', h')) \<and> holds h' M' (xs @ [m]))
       \<and> (\<exists>M' h'. pop M h = Returns (oldest xs, M', h') \<and> holds h' M' (tl xs))
       \<and> (xs = [] \<longrightarrow> pop M h = Returns (None, M, h)
                      \<and> popped (push_then_pop M m h) = Some m)
       \<and> (fifo_spec ops xs = Some out \<longrightarrow> run_mailbox ops M h = Some out)"
proof (intro conjI impI)
  show "\<exists>M' h'. push M m h = Returns (Inr (M', h')) \<and> holds h' M' (xs @ [m])"
    using push_holds [OF inv fresh] .
  show "\<exists>M' h'. pop M h = Returns (oldest xs, M', h') \<and> holds h' M' (tl xs)"
    using pop_holds [OF inv] .
  show "run_mailbox ops M h = Some out" if "fifo_spec ops xs = Some out"
    using run_mailbox_refines [OF inv that] .
next
  assume e: "xs = []"
  with inv show "pop M h = Returns (None, M, h)"
    by (simp add: holds_def pop_def)
  from e inv show "popped (push_then_pop M m h) = Some m"
    by (simp add: holds_def push_then_pop_def push_def pop_def)
qed

text \<open>A mailbox with two messages, and an emptied mailbox whose \<open>last\<close> is stale.\<close>

theorem mailbox_fifo_witness:
  "holds store_7_8 mailbox_7_8 [7, 8]
   \<and> (\<exists>M' h'. push mailbox_7_8 9 store_7_8 = Returns (Inr (M', h')) \<and> holds h' M' [7, 8, 9])
   \<and> (\<exists>M' h'. pop mailbox_7_8 store_7_8 = Returns (Some 7, M', h') \<and> holds h' M' [8])
   \<and> run_mailbox [Pop, Push 9, Push 7, Pop, Pop, Pop, Pop] mailbox_7_8 store_7_8 =
       Some [Some 7, Some 8, Some 9, Some 7, None]
   \<and> holds blank_store stale_mailbox []
   \<and> pop stale_mailbox blank_store = Returns (None, stale_mailbox, blank_store)
   \<and> popped (push_then_pop stale_mailbox 9 blank_store) = Some 9"
proof -
  have a: "holds store_7_8 mailbox_7_8 [7, 8]"
    by (simp add: holds_def store_7_8_def mailbox_7_8_def blank_store_def)
  have b: "(9::nat) \<notin> set [7, 8]"
    by simp
  have c: "holds blank_store stale_mailbox []"
    by (simp add: holds_def stale_mailbox_def)
  have d: "(9::nat) \<notin> set []"
    by simp
  have s: "fifo_spec [Pop, Push 9, Push 7, Pop, Pop, Pop, Pop] [7, 8] =
           Some [Some 7, Some 8, Some 9, Some 7, None]"
    by simp
  show ?thesis
    using mailbox_fifo [OF a b, of "[Pop, Push 9, Push 7, Pop, Pop, Pop, Pop]"
        "[Some 7, Some 8, Some 9, Some 7, None]"]
      mailbox_fifo [OF c d, of "[]" "[]"] a c s
    by simp
qed

end
